theory Spec2Isabelle
  imports Main
begin

section \<open>The video transcription script (transcripcion.py)\<close>

text \<open>
  The script is a linear pipeline: load the settings, check them, extract the audio of a
  video with moviepy, upload it to a storage bucket, have it transcribed by the speech
  service and write the text next to the audio. The embedding below follows the source
  function by function. Text is a list of characters, a character standing for a code
  point below 256. The file system, the bucket and the standard output are an explicit
  state; what moviepy, the storage service, the speech service and the writing of the
  transcript do in one run is a record of outcomes that the functions consult where the
  source makes the call.
\<close>

subsection \<open>Python string methods\<close>

text \<open>The characters below 256 for which \<^verbatim>\<open>str.isspace\<close> holds; \<^verbatim>\<open>str.strip()\<close> removes them.\<close>

definition whitespace :: "char list" where
  "whitespace = [CHR 0x09, CHR 0x0A, CHR 0x0B, CHR 0x0C, CHR 0x0D, CHR 0x1C, CHR 0x1D,
                 CHR 0x1E, CHR 0x1F, CHR 0x20, CHR 0x85, CHR 0xA0]"

text \<open>\<^verbatim>\<open>s.strip(chars)\<close>: drop the leading and the trailing characters that are in \<open>chars\<close>.\<close>

definition strip_chars :: "char list \<Rightarrow> string \<Rightarrow> string" where
  "strip_chars cs s = rev (dropWhile (\<lambda>c. c \<in> set cs) (rev (dropWhile (\<lambda>c. c \<in> set cs) s)))"

definition strip :: "string \<Rightarrow> string" where
  "strip s = strip_chars whitespace s"

definition startswith :: "string \<Rightarrow> string \<Rightarrow> bool" where
  "startswith s p = (take (length p) s = p)"

definition endswith :: "string \<Rightarrow> string \<Rightarrow> bool" where
  "endswith s p = (drop (length s - length p) s = p \<and> length p \<le> length s)"

text \<open>\<^verbatim>\<open>s.split(c, 1)\<close> for a string that contains \<open>c\<close>: the text before the first \<open>c\<close> and the text after it.\<close>

definition split_once :: "char \<Rightarrow> string \<Rightarrow> string \<times> string" where
  "split_once c s = (takeWhile (\<lambda>x. x \<noteq> c) s, drop 1 (dropWhile (\<lambda>x. x \<noteq> c) s))"

text \<open>\<^verbatim>\<open>s.rfind(c)\<close>: the index of the last \<open>c\<close> in \<open>s\<close>, or \<open>-1\<close>.\<close>

fun rfind_from :: "char \<Rightarrow> string \<Rightarrow> int \<Rightarrow> int \<Rightarrow> int" where
  "rfind_from c [] i found = found"
| "rfind_from c (x # xs) i found = rfind_from c xs (i + 1) (if x = c then i else found)"

definition rfind :: "string \<Rightarrow> char \<Rightarrow> int" where
  "rfind s c = rfind_from c s 0 (- 1)"

subsection \<open>os.path on POSIX\<close>

text \<open>\<^verbatim>\<open>os.path.basename(p)\<close>: \<^verbatim>\<open>i = p.rfind('/') + 1; return p[i:]\<close>.\<close>

definition basename :: "string \<Rightarrow> string" where
  "basename p = drop (nat (rfind p (CHR ''/'') + 1)) p"

text \<open>
  \<^verbatim>\<open>os.path.splitext(p)\<close>. The loop of the library skips the dots that lead the file name:
  \<^verbatim>\<open>
    filenameIndex = sepIndex + 1
    while filenameIndex < dotIndex:
        if p[filenameIndex:filenameIndex+1] != extsep:
            return p[:dotIndex], p[dotIndex:]
        filenameIndex += 1
    return p, p[:0]
  \<close>
\<close>

function splitext_loop :: "string \<Rightarrow> int \<Rightarrow> int \<Rightarrow> string \<times> string" where
  "splitext_loop p filenameIndex dotIndex =
     (if filenameIndex < dotIndex
      then (if take 1 (drop (nat filenameIndex) p) \<noteq> ''.''
            then (take (nat dotIndex) p, drop (nat dotIndex) p)
            else splitext_loop p (filenameIndex + 1) dotIndex)
      else (p, []))"
  by pat_completeness auto
termination
  by (relation "measure (\<lambda>(p, f, d). nat (d - f))") auto

declare splitext_loop.simps [simp del]

definition splitext :: "string \<Rightarrow> string \<times> string" where
  "splitext p =
     (let sepIndex = rfind p (CHR ''/''); dotIndex = rfind p (CHR ''.'')
      in if dotIndex > sepIndex then splitext_loop p (sepIndex + 1) dotIndex else (p, []))"

text \<open>\<^verbatim>\<open>os.path.join(a, b)\<close> with two arguments.\<close>

definition join :: "string \<Rightarrow> string \<Rightarrow> string" where
  "join a b =
     (if startswith b ''/'' then b
      else if a = [] \<or> endswith a ''/'' then a @ b
      else a @ ''/'' @ b)"

subsection \<open>Errors, messages and the state of a run\<close>

datatype error =
    IndexError
  | ValueError
  | OSError
  | FileExistsError
  | FileNotFoundError
  | IsADirectoryError
  | PermissionError
  | ExternalError string

text \<open>One constructor for each \<^verbatim>\<open>print\<close> of the source, with the values it formats.\<close>

datatype msg =
    MsgConfigMissing
  | MsgConfigHint
  | MsgExtracting string
  | MsgAudioSaved string
  | MsgExtractError error
  | MsgUploading string
  | MsgUploaded string
  | MsgUploadError error
  | MsgTranscribing string
  | MsgWaiting
  | MsgTranscribed int
  | MsgTranscribeError error
  | MsgSaving string
  | MsgSaved
  | MsgSaveError error
  | MsgVideoNotFound string
  | MsgCompleted string
  | MsgUsage

text \<open>
  The state: the directories and the regular files of the local file system (a path to
  its content), the objects in remote storage (bucket and object name to content) and the
  lines printed so far.
\<close>

record state =
  dirs :: "string set"
  files :: "string \<rightharpoonup> string"
  remote :: "string \<times> string \<rightharpoonup> string"
  stdout :: "msg list"

text \<open>
  What the collaborators do in this run, each consulted where the source makes the call.
  \<^item> \<open>mkdir\<close>: the error, if any, of creating the directory \<^verbatim>\<open>outputs\<close> when nothing the
    state knows has that name (the name is taken by a FIFO or a dangling link, the working
    directory is not writable, and so on).
  \<^item> \<open>extraction\<close>: lines 44 to 49 (opening the video, writing the audio, closing): the
    audio written, or the error. \<open>audio_leftover\<close>: what a failed extraction left at the
    audio path, if anything.
  \<^item> \<open>upload\<close>: the error of lines 63 to 68 (storage client, transfer), if any.
  \<^item> \<open>speech_setup\<close>: the error, if any, of building the speech client and the request
    (lines 85 to 96, which stand before the \<^verbatim>\<open>try\<close>).
  \<^item> \<open>submission\<close>: the error of \<^verbatim>\<open>long_running_recognize\<close> (line 100), if any.
  \<^item> \<open>recognition\<close>: what \<^verbatim>\<open>operation.result(timeout=900)\<close> gives (line 104): the result
    segments, each the list of its alternatives' transcripts, or the error (a timeout is
    one).
  \<^item> \<open>elapsed\<close>: the number of seconds printed on line 111.
  \<^item> \<open>writing\<close>: the error of lines 127 and 128, if any. \<open>transcript_leftover\<close>: what a
    failed write left at the transcript path, if anything.
  \<^item> \<open>removal\<close>: the error, if any, of deleting the audio file, which exists (its directory
    is not writable, and so on).
\<close>

record outcomes =
  mkdir :: "error option"
  extraction :: "error + string"
  audio_leftover :: "string option"
  upload :: "error option"
  speech_setup :: "error option"
  submission :: "error option"
  recognition :: "error + string list list"
  elapsed :: int
  writing :: "error option"
  transcript_leftover :: "string option"
  removal :: "error option"

text \<open>The three module-level settings, once checked.\<close>

record config =
  GCP_PROJECT_ID :: string
  GCS_BUCKET_NAME :: string
  AUDIO_LANGUAGE_CODE :: string

definition print :: "msg \<Rightarrow> state \<Rightarrow> state" where
  "print m st = st\<lparr>stdout := stdout st @ [m]\<rparr>"

definition os_path_exists :: "state \<Rightarrow> string \<Rightarrow> bool" where
  "os_path_exists st p = (p \<in> dom (files st) \<or> p \<in> dirs st)"

text \<open>
  \<^verbatim>\<open>os.makedirs(name, exist_ok=True)\<close> for a single path component. It raises
  FileExistsError when the name is a regular file, does nothing when the directory is
  there, and otherwise creates the directory unless the creation itself raises.
\<close>

definition os_makedirs :: "outcomes \<Rightarrow> string \<Rightarrow> state \<Rightarrow> error + state" where
  "os_makedirs w name st =
     (if name \<in> dom (files st) then Inl FileExistsError
      else if name \<in> dirs st then Inr st
      else (case mkdir w of
              Some e \<Rightarrow> Inl e
            | None \<Rightarrow> Inr (st\<lparr>dirs := insert name (dirs st)\<rparr>)))"

text \<open>
  \<^verbatim>\<open>os.remove(path)\<close> deletes a regular file, unless the deletion itself raises; it raises
  on a directory and on a path that does not exist.
\<close>

definition os_remove :: "outcomes \<Rightarrow> string \<Rightarrow> state \<Rightarrow> error + state" where
  "os_remove w path st =
     (if path \<in> dom (files st)
      then (case removal w of
              Some e \<Rightarrow> Inl e
            | None \<Rightarrow> Inr (st\<lparr>files := (files st)(path := None)\<rparr>))
      else if path \<in> dirs st then Inl IsADirectoryError
      else Inl FileNotFoundError)"

text \<open>Truth value of a Python value that is \<^verbatim>\<open>None\<close> or a string.\<close>

definition truthy :: "string option \<Rightarrow> bool" where
  "truthy v = (case v of None \<Rightarrow> False | Some s \<Rightarrow> s \<noteq> [])"

subsection \<open>Configuration loading (lines 10 to 34)\<close>

type_synonym environ = "string \<rightharpoonup> string"

text \<open>
  \<^verbatim>\<open>os.environ\<close> is a dictionary from names to values whose stores go through
  \<^verbatim>\<open>putenv\<close>: a NUL character in the name or in the value raises ValueError, and an empty
  name raises OSError. \<^verbatim>\<open>setdefault\<close> stores only when the name is not set.
\<close>

definition putenv_error :: "string \<Rightarrow> string \<Rightarrow> error option" where
  "putenv_error name val =
     (if CHR 0x00 \<in> set name \<or> CHR 0x00 \<in> set val then Some ValueError
      else if name = [] then Some OSError
      else None)"

definition setdefault :: "string \<Rightarrow> string \<Rightarrow> environ \<Rightarrow> error + environ" where
  "setdefault key val env =
     (case env key of
        Some _ \<Rightarrow> Inr env
      | None \<Rightarrow>
          (case putenv_error key val of
             Some e \<Rightarrow> Inl e
           | None \<Rightarrow> Inr (env(key \<mapsto> val))))"

text \<open>
  Reading a text file line by line: the end of a line is \<^verbatim>\<open>\n\<close>, \<^verbatim>\<open>\r\n\<close> or \<^verbatim>\<open>\r\<close>, each
  read as \<^verbatim>\<open>\n\<close>, and a line keeps its \<^verbatim>\<open>\n\<close>.
\<close>

fun universal_newlines :: "string \<Rightarrow> string" where
  "universal_newlines [] = []"
| "universal_newlines [c] = (if c = CHR 0x0D then [CHR 0x0A] else [c])"
| "universal_newlines (c # d # cs) =
     (if c = CHR 0x0D then
        (if d = CHR 0x0A then CHR 0x0A # universal_newlines cs
         else CHR 0x0A # universal_newlines (d # cs))
      else c # universal_newlines (d # cs))"

fun lines_from :: "string \<Rightarrow> string \<Rightarrow> string list" where
  "lines_from cur [] = (if cur = [] then [] else [cur])"
| "lines_from cur (c # cs) =
     (if c = CHR 0x0A then (cur @ [c]) # lines_from [] cs else lines_from (cur @ [c]) cs)"

definition readlines :: "string \<Rightarrow> string list" where
  "readlines content = lines_from [] (universal_newlines content)"

text \<open>Lines 15 to 19: the key and the value a line defines, if it defines one.\<close>

definition parse_line :: "string \<Rightarrow> (string \<times> string) option" where
  "parse_line raw =
     (let line = strip raw
      in if line \<noteq> [] \<and> \<not> startswith line ''#'' \<and> CHR ''='' \<in> set line
         then (let (key, val) = split_once (CHR ''='') line
               in Some (strip key, strip_chars [CHR 0x22, CHR 0x27] (strip val)))
         else None)"

text \<open>The body of the loop, lines 15 to 20.\<close>

definition load_line :: "string \<Rightarrow> environ \<Rightarrow> error + environ" where
  "load_line raw env =
     (case parse_line raw of None \<Rightarrow> Inr env | Some (key, val) \<Rightarrow> setdefault key val env)"

text \<open>
  The loop stops at the first line that raises. The result is the error, if any, and the
  environment at that moment: what the earlier lines stored stays stored.
\<close>

fun load_lines :: "string list \<Rightarrow> environ \<Rightarrow> error option \<times> environ" where
  "load_lines [] env = (None, env)"
| "load_lines (l # ls) env =
     (case load_line l env of
        Inl e \<Rightarrow> (Some e, env)
      | Inr env' \<Rightarrow> load_lines ls env')"

text \<open>
  \<open>load_dotenv\<close>: nothing happens when the path does not exist; opening a directory
  raises; otherwise the lines are loaded one after the other. \<open>environ_after_load\<close> is the
  environment of the process when \<open>load_dotenv\<close> returns or raises.
\<close>

definition load_dotenv :: "string \<Rightarrow> state \<Rightarrow> environ \<Rightarrow> error + environ" where
  "load_dotenv dotenv_path st env =
     (if os_path_exists st dotenv_path
      then (case files st dotenv_path of
              None \<Rightarrow> Inl IsADirectoryError
            | Some content \<Rightarrow>
                (case load_lines (readlines content) env of
                   (Some e, env') \<Rightarrow> Inl e
                 | (None, env') \<Rightarrow> Inr env'))
      else Inr env)"



subsection \<open>The pipeline steps (lines 37 to 131)\<close>

definition put_file :: "string \<Rightarrow> string option \<Rightarrow> state \<Rightarrow> state" where
  "put_file path content st =
     (case content of None \<Rightarrow> st | Some c \<Rightarrow> st\<lparr>files := (files st)(path \<mapsto> c)\<rparr>)"

definition audio_path_of :: "string \<Rightarrow> string" where
  "audio_path_of video_path =
     (let base_name = basename video_path;
          audio_filename = fst (splitext base_name) @ ''.mp3''
      in join ''outputs'' audio_filename)"

definition extraer_audio :: "outcomes \<Rightarrow> string \<Rightarrow> state \<Rightarrow> string option \<times> state" where
  "extraer_audio w video_path st =
     (let st1 = print (MsgExtracting video_path) st;
          audio_path = audio_path_of video_path
      in case extraction w of
           Inr audio \<Rightarrow>
             (Some audio_path, print (MsgAudioSaved audio_path) (put_file audio_path (Some audio) st1))
         | Inl e \<Rightarrow>
             (None, print (MsgExtractError e) (put_file audio_path (audio_leftover w) st1)))"

definition subir_a_gcs :: "outcomes \<Rightarrow> string \<Rightarrow> string \<Rightarrow> state \<Rightarrow> string option \<times> state" where
  "subir_a_gcs w file_path bucket_name st =
     (let st1 = print (MsgUploading file_path) st;
          blob_name = basename file_path
      in case upload w of
           Some e \<Rightarrow> (None, print (MsgUploadError e) st1)
         | None \<Rightarrow>
             (case files st1 file_path of
                None \<Rightarrow> (None, print (MsgUploadError FileNotFoundError) st1)
              | Some content \<Rightarrow>
                  (let gcs_uri = ''gs://'' @ bucket_name @ ''/'' @ blob_name
                   in (Some gcs_uri,
                       print (MsgUploaded gcs_uri)
                         (st1\<lparr>remote := (remote st1)((bucket_name, blob_name) \<mapsto> content)\<rparr>)))))"

text \<open>
  Lines 106 to 108. \<^verbatim>\<open>result.alternatives[0]\<close> raises IndexError on a segment without
  alternatives.
\<close>

fun append_results :: "string \<Rightarrow> string list list \<Rightarrow> error + string" where
  "append_results transcription [] = Inr transcription"
| "append_results transcription (alternatives # results) =
     (case alternatives of
        [] \<Rightarrow> Inl IndexError
      | transcript # _ \<Rightarrow> append_results (transcription @ transcript @ [CHR 0x0A]) results)"

text \<open>
  The result is \<open>Inl\<close> for an error that leaves the function (raised before the
  \<^verbatim>\<open>try\<close>), \<open>Inr None\<close> for a caught one, \<open>Inr (Some text)\<close> otherwise.
\<close>

definition transcribir_audio_largo ::
  "outcomes \<Rightarrow> string \<Rightarrow> state \<Rightarrow> (error + string option) \<times> state" where
  "transcribir_audio_largo w gcs_uri st =
     (let st1 = print (MsgTranscribing gcs_uri) st
      in case speech_setup w of
           Some e \<Rightarrow> (Inl e, st1)
         | None \<Rightarrow>
             (case submission w of
                Some e \<Rightarrow> (Inr None, print (MsgTranscribeError e) st1)
              | None \<Rightarrow>
                  (let st2 = print MsgWaiting st1
                   in case recognition w of
                        Inl e \<Rightarrow> (Inr None, print (MsgTranscribeError e) st2)
                      | Inr results \<Rightarrow>
                          (case append_results [] results of
                             Inl e \<Rightarrow> (Inr None, print (MsgTranscribeError e) st2)
                           | Inr transcription \<Rightarrow>
                               (Inr (Some transcription), print (MsgTranscribed (elapsed w)) st2)))))"

definition txt_path_of :: "string \<Rightarrow> string" where
  "txt_path_of video_path =
     (let base_name = basename video_path;
          txt_filename = fst (splitext base_name) @ ''.txt''
      in join ''outputs'' txt_filename)"

definition guardar_transcripcion :: "outcomes \<Rightarrow> string \<Rightarrow> string \<Rightarrow> state \<Rightarrow> state" where
  "guardar_transcripcion w video_path texto st =
     (let txt_path = txt_path_of video_path;
          st1 = print (MsgSaving txt_path) st
      in case writing w of
           None \<Rightarrow> print MsgSaved (put_file txt_path (Some texto) st1)
         | Some e \<Rightarrow> print (MsgSaveError e) (put_file txt_path (transcript_leftover w) st1))"

subsection \<open>The orchestrator (lines 134 to 165)\<close>

text \<open>
  \<open>Inr ()\<close> when \<open>main\<close> returns, \<open>Inl e\<close> when the error \<open>e\<close> leaves it. \<^verbatim>\<open>if not x\<close> holds
  for \<^verbatim>\<open>None\<close> and for the empty string; \<open>the\<close> reads a value only after that test has
  shown it to be a string.
\<close>

definition main :: "outcomes \<Rightarrow> config \<Rightarrow> string \<Rightarrow> state \<Rightarrow> (error + unit) \<times> state" where
  "main w cfg video_file_path st =
     (case os_makedirs w ''outputs'' st of
        Inl e \<Rightarrow> (Inl e, st)
      | Inr st0 \<Rightarrow>
          if \<not> os_path_exists st0 video_file_path
          then (Inr (), print (MsgVideoNotFound video_file_path) st0)
          else
            (case extraer_audio w video_file_path st0 of
               (audio_file, st1) \<Rightarrow>
                 if \<not> truthy audio_file then (Inr (), st1)
                 else
                   (case subir_a_gcs w (the audio_file) (GCS_BUCKET_NAME cfg) st1 of
                      (gcs_uri, st2) \<Rightarrow>
                        if \<not> truthy gcs_uri then (Inr (), st2)
                        else
                          (case transcribir_audio_largo w (the gcs_uri) st2 of
                             (Inl e, st3) \<Rightarrow> (Inl e, st3)
                           | (Inr texto_transcrito, st3) \<Rightarrow>
                               if \<not> truthy texto_transcrito then (Inr (), st3)
                               else
                                 (let st4 = guardar_transcripcion w video_file_path
                                              (the texto_transcrito) st3
                                  in case os_remove w (the audio_file) st4 of
                                       Inl e \<Rightarrow> (Inl e, st4)
                                     | Inr st5 \<Rightarrow>
                                         (Inr (),
                                          print (MsgCompleted (basename (the audio_file))) st5))))))"

subsection \<open>The script from its first line to its exit status\<close>

datatype ending = Finished | SysExit nat | Uncaught error

text \<open>An error that nothing catches ends the interpreter with status 1.\<close>

fun exit_code :: "ending \<Rightarrow> nat" where
  "exit_code Finished = 0"
| "exit_code (SysExit n) = n"
| "exit_code (Uncaught e) = 1"

text \<open>
  Lines 23 to 34 and 169 to 179, for the script run as a program. \<^verbatim>\<open>not all([a, b, c])\<close>
  holds when one of the three is \<^verbatim>\<open>None\<close> or empty; past that test the three are strings,
  and past the test of its length \<open>argv\<close> has an element 1.
\<close>

definition script :: "outcomes \<Rightarrow> environ \<Rightarrow> string list \<Rightarrow> state \<Rightarrow> ending \<times> state" where
  "script w env argv st =
     (case load_dotenv ''.env'' st env of
        Inl e \<Rightarrow> (Uncaught e, st)
      | Inr env' \<Rightarrow>
          (let project = env' ''GCP_PROJECT_ID'';
               bucket = env' ''GCS_BUCKET_NAME'';
               language = env' ''AUDIO_LANGUAGE_CODE''
           in if \<not> list_all truthy [project, bucket, language]
              then (SysExit 1, print MsgConfigHint (print MsgConfigMissing st))
              else if length argv < 2
              then (SysExit 1, print MsgUsage st)
              else
                (let cfg = \<lparr>GCP_PROJECT_ID = the project, GCS_BUCKET_NAME = the bucket,
                            AUDIO_LANGUAGE_CODE = the language\<rparr>;
                     ruta_del_video = argv ! 1
                 in case main w cfg ruta_del_video st of
                      (Inl e, st') \<Rightarrow> (Uncaught e, st')
                    | (Inr u, st') \<Rightarrow> (Finished, st'))))"

subsection \<open>Example inputs\<close>

text \<open>A video \<^verbatim>\<open>dir/clip.mp4\<close> on an otherwise empty disk, and a run in which every collaborator succeeds.\<close>

definition example_state :: state where
  "example_state =
     \<lparr>dirs = {}, files = [''dir/clip.mp4'' \<mapsto> ''VIDEO''], remote = Map.empty, stdout = []\<rparr>"

definition example_outcomes :: outcomes where
  "example_outcomes =
     \<lparr>mkdir = None, extraction = Inr ''AUDIO'', audio_leftover = None, upload = None,
      speech_setup = None, submission = None,
      recognition = Inr [[''hello world'', ''hollow word'']], elapsed = 3,
      writing = None, transcript_leftover = None, removal = None\<rparr>"



text \<open>
  The settings of the example. A disk on which \<^verbatim>\<open>outputs\<close> exists, holds an audio file of an
  earlier run and is not writable, so that writing the transcript and deleting the audio
  both raise. A settings file whose first line has an empty name. A disk on which
  \<^verbatim>\<open>outputs\<close> is a regular file.
\<close>

definition example_config :: config where
  "example_config =
     \<lparr>GCP_PROJECT_ID = ''p'', GCS_BUCKET_NAME = ''b'', AUDIO_LANGUAGE_CODE = ''es-ES''\<rparr>"

definition example_environ :: environ where
  "example_environ =
     [''GCP_PROJECT_ID'' \<mapsto> ''p'', ''GCS_BUCKET_NAME'' \<mapsto> ''b'',
      ''AUDIO_LANGUAGE_CODE'' \<mapsto> ''es-ES'']"

definition readonly_state :: state where
  "readonly_state =
     \<lparr>dirs = {''outputs''},
      files = [''dir/clip.mp4'' \<mapsto> ''VIDEO'', ''outputs/clip.mp3'' \<mapsto> ''OLD AUDIO''],
      remote = Map.empty, stdout = []\<rparr>"

definition readonly_outcomes :: outcomes where
  "readonly_outcomes =
     example_outcomes\<lparr>writing := Some PermissionError, removal := Some PermissionError\<rparr>"




definition blocked_state :: state where
  "blocked_state =
     \<lparr>dirs = {},
      files = [''dir/clip.mp4'' \<mapsto> ''VIDEO'', ''outputs'' \<mapsto> ''a regular file''],
      remote = Map.empty, stdout = []\<rparr>"

section \<open>Properties\<close>

subsection \<open>Paths\<close>

lemma rfind_from_append:
  "rfind_from c (xs @ ys) i found = rfind_from c ys (i + int (length xs)) (rfind_from c xs i found)"
  by (induction xs arbitrary: i found) (simp_all add: algebra_simps)

lemma rfind_from_absent: "c \<notin> set xs \<Longrightarrow> rfind_from c xs i found = found"
  by (induction xs arbitrary: i found) auto

lemma rfind_absent: "c \<notin> set s \<Longrightarrow> rfind s c = - 1"
  by (simp add: rfind_def rfind_from_absent)

lemma rfind_last: "c \<notin> set ys \<Longrightarrow> rfind (xs @ c # ys) c = int (length xs)"
  by (simp add: rfind_def rfind_from_append rfind_from_absent)

lemma rfind_cases:
  obtains (absent) "c \<notin> set s" "rfind s c = - 1"
  | (present) xs ys where "s = xs @ c # ys" "c \<notin> set ys" "rfind s c = int (length xs)"
proof (cases "c \<in> set s")
  case True
  then obtain xs ys where "s = xs @ c # ys" "c \<notin> set ys"
    by (meson split_list_last)
  then show ?thesis using present rfind_last by blast
next
  case False
  then show ?thesis using absent rfind_absent by blast
qed

lemma basename_no_sep: "CHR ''/'' \<notin> set (basename p)"
proof (cases p "CHR ''/''" rule: rfind_cases)
  case absent
  then show ?thesis by (simp add: basename_def)
next
  case (present xs ys)
  then show ?thesis by (simp add: basename_def nat_add_distrib)
qed

lemma splitext_loop_cases:
  "splitext_loop p f d = (take (nat d) p, drop (nat d) p) \<or> splitext_loop p f d = (p, [])"
proof (induction p f d rule: splitext_loop.induct)
  case (1 p f d)
  have eq: "splitext_loop p f d =
    (if f < d
     then (if take 1 (drop (nat f) p) \<noteq> ''.''
           then (take (nat d) p, drop (nat d) p)
           else splitext_loop p (f + 1) d)
     else (p, []))"
    by (rule splitext_loop.simps)
  show ?case
  proof (cases "f < d \<and> take 1 (drop (nat f) p) = ''.''")
    case True
    then have "splitext_loop p f d = splitext_loop p (f + 1) d"
      using eq by simp
    with 1 True show ?thesis by simp
  next
    case False
    then show ?thesis using eq by auto
  qed
qed

lemma rfind_ge: "- 1 \<le> rfind s c"
  by (cases s c rule: rfind_cases) simp_all

lemma splitext_parts:
  "fst (splitext p) @ snd (splitext p) = p \<and>
   (snd (splitext p) = [] \<or> (\<exists>e. snd (splitext p) = CHR ''.'' # e \<and> CHR ''.'' \<notin> set e))"
proof (cases "rfind p (CHR ''.'') > rfind p (CHR ''/'')")
  case False
  then have "splitext p = (p, [])"
    by (simp add: splitext_def Let_def)
  then show ?thesis by simp
next
  case True
  show ?thesis
  proof (cases p "CHR ''.''" rule: rfind_cases)
    case absent
    then have "rfind p (CHR ''.'') \<le> rfind p (CHR ''/'')"
      using rfind_ge[of p "CHR ''/''"] by simp
    with True show ?thesis by simp
  next
    case (present xs ys)
    have "splitext p = splitext_loop p (rfind p (CHR ''/'') + 1) (int (length xs))"
      using True present(3) by (simp add: splitext_def Let_def)
    moreover have "take (nat (int (length xs))) p = xs" "drop (nat (int (length xs))) p = CHR ''.'' # ys"
      using present(1) by simp_all
    ultimately have "splitext p = (xs, CHR ''.'' # ys) \<or> splitext p = (p, [])"
      using splitext_loop_cases[of p "rfind p (CHR ''/'') + 1" "int (length xs)"] by simp
    then show ?thesis
    proof
      assume "splitext p = (xs, CHR ''.'' # ys)"
      then show ?thesis using present(1,2) by simp
    next
      assume "splitext p = (p, [])"
      then show ?thesis by simp
    qed
  qed
qed

lemma join_outputs: "\<not> startswith b ''/'' \<Longrightarrow> join ''outputs'' b = ''outputs/'' @ b"
  by (simp add: join_def endswith_def)

lemma root_no_sep: "CHR ''/'' \<notin> set (fst (splitext (basename p)))"
proof -
  have "set (fst (splitext (basename p))) \<subseteq> set (basename p)"
    by (metis splitext_parts set_append Un_upper1)
  then show ?thesis using basename_no_sep by blast
qed

lemma audio_path_of_eq: "audio_path_of v = ''outputs/'' @ fst (splitext (basename v)) @ ''.mp3''"
proof -
  have "\<not> startswith (fst (splitext (basename v)) @ ''.mp3'') ''/''"
    using root_no_sep[of v] by (cases "fst (splitext (basename v))") (auto simp: startswith_def)
  then show ?thesis by (simp add: audio_path_of_def Let_def join_outputs)
qed

lemma txt_path_of_eq: "txt_path_of v = ''outputs/'' @ fst (splitext (basename v)) @ ''.txt''"
proof -
  have "\<not> startswith (fst (splitext (basename v)) @ ''.txt'') ''/''"
    using root_no_sep[of v] by (cases "fst (splitext (basename v))") (auto simp: startswith_def)
  then show ?thesis by (simp add: txt_path_of_def Let_def join_outputs)
qed

lemma audio_txt_differ: "audio_path_of v \<noteq> txt_path_of v"
  by (simp add: audio_path_of_eq txt_path_of_eq)

lemma basename_audio_path: "basename (audio_path_of v) = fst (splitext (basename v)) @ ''.mp3''"
proof -
  have "CHR ''/'' \<notin> set (fst (splitext (basename v)) @ ''.mp3'')"
    using root_no_sep[of v] by simp
  then have "rfind (''outputs'' @ CHR ''/'' # (fst (splitext (basename v)) @ ''.mp3'')) (CHR ''/'') = int (length ''outputs'')"
    by (rule rfind_last)
  then show ?thesis by (simp add: audio_path_of_eq basename_def)
qed

subsection \<open>The steps\<close>

lemma truthy_Some [simp]: "truthy (Some s) \<longleftrightarrow> s \<noteq> []"
  by (simp add: truthy_def)

lemma truthy_None [simp]: "\<not> truthy None"
  by (simp add: truthy_def)

lemma audio_path_nonempty: "audio_path_of v \<noteq> []"
  by (simp add: audio_path_of_eq)

lemma extraer_audio_ok:
  "extraction w = Inr audio \<Longrightarrow>
   extraer_audio w v st =
     (Some (audio_path_of v),
      st\<lparr>files := (files st)(audio_path_of v \<mapsto> audio),
         stdout := stdout st @ [MsgExtracting v, MsgAudioSaved (audio_path_of v)]\<rparr>)"
  by (simp add: extraer_audio_def Let_def print_def put_file_def)

lemma extraer_audio_failed:
  "extraction w = Inl e \<Longrightarrow>
   extraer_audio w v st =
     (None,
      (put_file (audio_path_of v) (audio_leftover w) st)
        \<lparr>stdout := stdout st @ [MsgExtracting v, MsgExtractError e]\<rparr>)"
  by (cases "audio_leftover w") (simp_all add: extraer_audio_def Let_def print_def put_file_def)

lemma extraer_audio_result:
  "fst (extraer_audio w v st) = (case extraction w of Inl e \<Rightarrow> None | Inr a \<Rightarrow> Some (audio_path_of v))"
  by (cases "extraction w") (simp_all add: extraer_audio_ok extraer_audio_failed)


lemma subir_a_gcs_failed:
  "\<not> truthy (fst (subir_a_gcs w f b st)) \<Longrightarrow>
   \<exists>e. subir_a_gcs w f b st = (None, st\<lparr>stdout := stdout st @ [MsgUploading f, MsgUploadError e]\<rparr>)"
  by (auto simp: subir_a_gcs_def Let_def print_def split: option.splits)

lemma append_results_grows:
  "append_results acc rs = Inr t \<Longrightarrow> length acc + length rs \<le> length t"
proof (induction rs arbitrary: acc)
  case Nil
  then show ?case by simp
next
  case (Cons alts rs)
  then show ?case by (cases alts) fastforce+
qed

lemma append_results_empty: "append_results [] rs = Inr [] \<longleftrightarrow> rs = []"
  using append_results_grows[of "[]" rs "[]"] by (cases rs) auto

subsection \<open>The audio extractor\<close>



subsection \<open>Configuration loading\<close>









subsection \<open>The transcription step\<close>

lemma append_results_concat:
  "\<forall>alternatives \<in> set results. alternatives \<noteq> [] \<Longrightarrow>
   append_results acc results =
     Inr (acc @ concat (map (\<lambda>alternatives. hd alternatives @ [CHR 0x0A]) results))"
proof (induction results arbitrary: acc)
  case Nil
  then show ?case by simp
next
  case (Cons alternatives results)
  then obtain t ts where "alternatives = t # ts"
    by (cases alternatives) auto
  with Cons show ?case by simp
qed


lemma concat_lines_last:
  "concat (map (\<lambda>alternatives. hd alternatives @ [CHR 0x0A]) results) \<noteq> [] \<Longrightarrow>
   last (concat (map (\<lambda>alternatives. hd alternatives @ [CHR 0x0A]) results)) = CHR 0x0A"
proof (induction results rule: rev_induct)
  case Nil
  then show ?case by simp
next
  case (snoc alternatives results)
  show ?case by simp
qed

lemma transcribir_audio_largo_ok:
  "speech_setup w = None \<Longrightarrow> submission w = None \<Longrightarrow> recognition w = Inr results \<Longrightarrow>
   append_results [] results = Inr t \<Longrightarrow>
   transcribir_audio_largo w uri st =
     (Inr (Some t),
      st\<lparr>stdout := stdout st @ [MsgTranscribing uri, MsgWaiting, MsgTranscribed (elapsed w)]\<rparr>)"
  by (simp add: transcribir_audio_largo_def Let_def print_def)

text \<open>
  Claim C4, as amended. When the speech client is built, the request is accepted, the
  operation completes in time and every result segment carries at least one alternative,
  \<open>transcribir_audio_largo\<close> returns the first alternative of every segment, each followed by
  a newline, in the order of the segments; such a text, when not empty, ends in a newline.
\<close>

theorem transcribir_audio_largo_concatenates:
  assumes "speech_setup w = None" and "submission w = None"
    and "recognition w = Inr results"
    and "\<forall>alternatives \<in> set results. alternatives \<noteq> []"
  shows "fst (transcribir_audio_largo w gcs_uri st) =
           Inr (Some (concat (map (\<lambda>alternatives. hd alternatives @ [CHR 0x0A]) results)))
         \<and> (concat (map (\<lambda>alternatives. hd alternatives @ [CHR 0x0A]) results) \<noteq> [] \<longrightarrow>
              last (concat (map (\<lambda>alternatives. hd alternatives @ [CHR 0x0A]) results)) = CHR 0x0A)"
proof -
  have "append_results [] results =
          Inr (concat (map (\<lambda>alternatives. hd alternatives @ [CHR 0x0A]) results))"
    using append_results_concat[OF assms(4), of "[]"] by simp
  then show ?thesis
    using assms(1-3) concat_lines_last[of results]
    by (simp add: transcribir_audio_largo_ok)
qed

text \<open>The theorem on a response of one segment with two alternatives.\<close>

theorem transcribir_audio_largo_concatenates_witness:
  "fst (transcribir_audio_largo example_outcomes ''gs://b/clip.mp3'' example_state) =
     Inr (Some (''hello world'' @ [CHR 0x0A]))"
proof -
  have a: "speech_setup example_outcomes = None" "submission example_outcomes = None"
    "recognition example_outcomes = Inr [[''hello world'', ''hollow word'']]"
    by (simp_all add: example_outcomes_def)
  have b: "\<forall>alternatives \<in> set [[''hello world'', ''hollow word'']]. alternatives \<noteq> []"
    by simp
  show ?thesis
    using transcribir_audio_largo_concatenates [OF a b, of "''gs://b/clip.mp3''" example_state]
    by simp
qed

text \<open>
  The claim as first stated covers every response that arrives in time. A response whose
  second segment has no alternative makes line 108 raise IndexError, which the handler of
  line 114 catches: the step logs it and returns \<^verbatim>\<open>None\<close>, not the text of the first segment.
\<close>

theorem transcribir_audio_largo_counterexample:
  "transcribir_audio_largo (example_outcomes\<lparr>recognition := Inr [[''hola''], []]\<rparr>)
     ''gs://b/clip.mp3'' example_state =
   (Inr None,
    example_state\<lparr>stdout := [MsgTranscribing ''gs://b/clip.mp3'', MsgWaiting,
                              MsgTranscribeError IndexError]\<rparr>)"
  by (simp add: transcribir_audio_largo_def example_outcomes_def example_state_def Let_def print_def)

subsection \<open>The orchestrator, branch by branch\<close>

lemma os_makedirs_Inr:
  "os_makedirs w name st = Inr st0 \<Longrightarrow> st0 = st\<lparr>dirs := insert name (dirs st)\<rparr>"
  by (auto simp: os_makedirs_def insert_absorb split: if_splits option.splits)

lemma put_file_frame [simp]:
  "dirs (put_file p c st) = dirs st"
  "remote (put_file p c st) = remote st"
  "stdout (put_file p c st) = stdout st"
  "q \<noteq> p \<Longrightarrow> files (put_file p c st) q = files st q"
  by (cases c; simp add: put_file_def)+


lemma main_video_missing:
  "os_makedirs w ''outputs'' st = Inr st0 \<Longrightarrow> \<not> os_path_exists st0 v \<Longrightarrow>
   main w cfg v st = (Inr (), print (MsgVideoNotFound v) st0)"
  by (simp add: main_def)

lemma main_extraction_fails:
  "os_makedirs w ''outputs'' st = Inr st0 \<Longrightarrow> os_path_exists st0 v \<Longrightarrow>
   extraer_audio w v st0 = (a, st1) \<Longrightarrow> \<not> truthy a \<Longrightarrow>
   main w cfg v st = (Inr (), st1)"
  by (simp add: main_def)

lemma main_upload_fails:
  "os_makedirs w ''outputs'' st = Inr st0 \<Longrightarrow> os_path_exists st0 v \<Longrightarrow>
   extraer_audio w v st0 = (Some a, st1) \<Longrightarrow> a \<noteq> [] \<Longrightarrow>
   subir_a_gcs w a (GCS_BUCKET_NAME cfg) st1 = (u, st2) \<Longrightarrow> \<not> truthy u \<Longrightarrow>
   main w cfg v st = (Inr (), st2)"
  by (simp add: main_def)

lemma main_transcription_raises:
  "os_makedirs w ''outputs'' st = Inr st0 \<Longrightarrow> os_path_exists st0 v \<Longrightarrow>
   extraer_audio w v st0 = (Some a, st1) \<Longrightarrow> a \<noteq> [] \<Longrightarrow>
   subir_a_gcs w a (GCS_BUCKET_NAME cfg) st1 = (Some u, st2) \<Longrightarrow> u \<noteq> [] \<Longrightarrow>
   transcribir_audio_largo w u st2 = (Inl e, st3) \<Longrightarrow>
   main w cfg v st = (Inl e, st3)"
  by (simp add: main_def)

lemma main_transcription_empty:
  "os_makedirs w ''outputs'' st = Inr st0 \<Longrightarrow> os_path_exists st0 v \<Longrightarrow>
   extraer_audio w v st0 = (Some a, st1) \<Longrightarrow> a \<noteq> [] \<Longrightarrow>
   subir_a_gcs w a (GCS_BUCKET_NAME cfg) st1 = (Some u, st2) \<Longrightarrow> u \<noteq> [] \<Longrightarrow>
   transcribir_audio_largo w u st2 = (Inr r, st3) \<Longrightarrow> \<not> truthy r \<Longrightarrow>
   main w cfg v st = (Inr (), st3)"
  by (simp add: main_def)

lemma main_saves:
  "os_makedirs w ''outputs'' st = Inr st0 \<Longrightarrow> os_path_exists st0 v \<Longrightarrow>
   extraer_audio w v st0 = (Some a, st1) \<Longrightarrow> a \<noteq> [] \<Longrightarrow>
   subir_a_gcs w a (GCS_BUCKET_NAME cfg) st1 = (Some u, st2) \<Longrightarrow> u \<noteq> [] \<Longrightarrow>
   transcribir_audio_largo w u st2 = (Inr (Some t), st3) \<Longrightarrow> t \<noteq> [] \<Longrightarrow>
   main w cfg v st =
     (case os_remove w a (guardar_transcripcion w v t st3) of
        Inl e \<Rightarrow> (Inl e, guardar_transcripcion w v t st3)
      | Inr st5 \<Rightarrow> (Inr (), print (MsgCompleted (basename a)) st5))"
  by (simp add: main_def Let_def split: sum.splits)

lemma extraer_audio_Some:
  assumes "extraer_audio w v st = (Some a, st1)"
  shows "\<exists>audio. extraction w = Inr audio \<and> a = audio_path_of v \<and> a \<noteq> []
           \<and> st1 = st\<lparr>files := (files st)(a \<mapsto> audio),
                       stdout := stdout st @ [MsgExtracting v, MsgAudioSaved a]\<rparr>"
proof (cases "extraction w")
  case (Inl e)
  then show ?thesis using assms extraer_audio_failed[OF Inl, of v st] by simp
next
  case (Inr audio)
  then show ?thesis
    using assms extraer_audio_ok[OF Inr, of v st] audio_path_nonempty[of v] by auto
qed

lemma extraer_audio_falsy:
  assumes "\<not> truthy (fst (extraer_audio w v st))"
  shows "\<exists>e. extraction w = Inl e
           \<and> extraer_audio w v st =
               (None, (put_file (audio_path_of v) (audio_leftover w) st)
                        \<lparr>stdout := stdout st @ [MsgExtracting v, MsgExtractError e]\<rparr>)"
proof (cases "extraction w")
  case (Inl e)
  then show ?thesis using extraer_audio_failed[OF Inl, of v st] by simp
next
  case (Inr audio)
  then show ?thesis
    using assms extraer_audio_ok[OF Inr, of v st] audio_path_nonempty[of v] by simp
qed

lemma subir_a_gcs_Some:
  assumes "subir_a_gcs w f b st = (Some u, st2)"
  shows "\<exists>content. upload w = None \<and> files st f = Some content \<and> u \<noteq> []
           \<and> u = ''gs://'' @ b @ ''/'' @ basename f
           \<and> st2 = st\<lparr>remote := (remote st)((b, basename f) \<mapsto> content),
                       stdout := stdout st @ [MsgUploading f, MsgUploaded u]\<rparr>"
  using assms
  by (auto simp: subir_a_gcs_def Let_def print_def split: option.splits)

lemma transcribir_audio_largo_frame:
  assumes "transcribir_audio_largo w u st = (r, st3)"
  shows "dirs st3 = dirs st \<and> files st3 = files st \<and> remote st3 = remote st"
  using assms
  by (auto simp: transcribir_audio_largo_def Let_def print_def split: option.splits sum.splits)

lemma transcribir_audio_largo_empty:
  assumes "transcribir_audio_largo w u st = (Inr (Some []), st3)"
  shows "speech_setup w = None \<and> submission w = None \<and> recognition w = Inr []"
  using assms
  by (auto simp: transcribir_audio_largo_def Let_def append_results_empty
           split: option.splits sum.splits)

lemma transcribir_audio_largo_no_segments:
  assumes "transcribir_audio_largo w u st = (Inr texto, st3)"
    and "submission w = None" and "recognition w = Inr []"
  shows "texto = Some []"
  using assms
  by (auto simp: transcribir_audio_largo_def Let_def split: option.splits)

lemma guardar_transcripcion_failed:
  "writing w = Some e \<Longrightarrow>
   guardar_transcripcion w v t st =
     (put_file (txt_path_of v) (transcript_leftover w) st)
       \<lparr>stdout := stdout st @ [MsgSaving (txt_path_of v), MsgSaveError e]\<rparr>"
  by (cases "transcript_leftover w")
     (simp_all add: guardar_transcripcion_def Let_def print_def put_file_def)

lemma guardar_transcripcion_ok:
  "writing w = None \<Longrightarrow>
   guardar_transcripcion w v t st =
     st\<lparr>files := (files st)(txt_path_of v \<mapsto> t),
        stdout := stdout st @ [MsgSaving (txt_path_of v), MsgSaved]\<rparr>"
  by (simp add: guardar_transcripcion_def Let_def print_def put_file_def)

lemma guardar_transcripcion_frame:
  "dirs (guardar_transcripcion w v t st) = dirs st"
  "remote (guardar_transcripcion w v t st) = remote st"
  "q \<noteq> txt_path_of v \<Longrightarrow> files (guardar_transcripcion w v t st) q = files st q"
  by (cases "writing w"; simp add: guardar_transcripcion_ok guardar_transcripcion_failed)+

text \<open>
  Once the transcript is there and not empty, the audio file that \<open>os.remove\<close> is asked to
  delete is the one the extraction wrote: the run ends normally, unless the deletion
  itself raises.
\<close>

lemma main_completes:
  assumes "os_makedirs w ''outputs'' st = Inr st0"
    and "os_path_exists st0 video"
    and "extraer_audio w video st0 = (Some a, st1)"
    and "subir_a_gcs w a (GCS_BUCKET_NAME cfg) st1 = (Some u, st2)"
    and "transcribir_audio_largo w u st2 = (Inr (Some t), st3)"
    and "t \<noteq> []"
  shows "main w cfg video st =
     (case removal w of
        Some x \<Rightarrow> (Inl x, guardar_transcripcion w video t st3)
      | None \<Rightarrow>
          (Inr (),
           (guardar_transcripcion w video t st3)
             \<lparr>files := (files (guardar_transcripcion w video t st3))(a := None),
              stdout := stdout (guardar_transcripcion w video t st3) @
                        [MsgCompleted (basename a)]\<rparr>))"
    and "files st3 a \<noteq> None"
    and "files (guardar_transcripcion w video t st3) a = files st3 a"
proof -
  obtain audio where a: "a \<noteq> []" "a = audio_path_of video"
    and st1: "st1 = st0\<lparr>files := (files st0)(a \<mapsto> audio),
                          stdout := stdout st0 @ [MsgExtracting video, MsgAudioSaved a]\<rparr>"
    using extraer_audio_Some[OF assms(3)] by blast
  obtain content where u: "u \<noteq> []"
    and st2: "st2 = st1\<lparr>remote := (remote st1)((GCS_BUCKET_NAME cfg, basename a) \<mapsto> content),
                          stdout := stdout st1 @ [MsgUploading a, MsgUploaded u]\<rparr>"
    using subir_a_gcs_Some[OF assms(4)] by blast
  have present: "files st3 a = Some audio"
    using transcribir_audio_largo_frame[OF assms(5)] st2 st1 by simp
  then show "files st3 a \<noteq> None"
    by simp
  show kept: "files (guardar_transcripcion w video t st3) a = files st3 a"
    using a(2) audio_txt_differ[of video] by (simp add: guardar_transcripcion_frame)
  have "os_remove w a (guardar_transcripcion w video t st3) =
      (case removal w of
         Some x \<Rightarrow> Inl x
       | None \<Rightarrow>
           Inr ((guardar_transcripcion w video t st3)
                  \<lparr>files := (files (guardar_transcripcion w video t st3))(a := None)\<rparr>))"
    using kept present by (auto simp: os_remove_def split: option.splits)
  then show "main w cfg video st =
     (case removal w of
        Some x \<Rightarrow> (Inl x, guardar_transcripcion w video t st3)
      | None \<Rightarrow>
          (Inr (),
           (guardar_transcripcion w video t st3)
             \<lparr>files := (files (guardar_transcripcion w video t st3))(a := None),
              stdout := stdout (guardar_transcripcion w video t st3) @
                        [MsgCompleted (basename a)]\<rparr>))"
    using main_saves[OF assms(1,2,3) a(1) assms(4) u assms(5,6)]
    by (simp add: print_def split: option.splits)
qed

lemma writing_irrelevant:
  "os_makedirs (w\<lparr>writing := x\<rparr>) = os_makedirs w"
  "extraer_audio (w\<lparr>writing := x\<rparr>) = extraer_audio w"
  "subir_a_gcs (w\<lparr>writing := x\<rparr>) = subir_a_gcs w"
  "transcribir_audio_largo (w\<lparr>writing := x\<rparr>) = transcribir_audio_largo w"
  by (auto simp: os_makedirs_def extraer_audio_def subir_a_gcs_def transcribir_audio_largo_def
                 Let_def fun_eq_iff
           split: sum.splits option.splits)

subsection \<open>Failures of the steps\<close>

text \<open>
  Claim C6. When the run reaches the extraction and the step reports no result, \<open>main\<close>
  returns with the state the extraction left. The only lines printed are the banner of
  step 1 and its error: neither the upload, nor the transcription, nor the writing of the
  transcript ran. Remote storage is unchanged and nothing is written at the path of the
  transcript.
\<close>

theorem main_halts_on_extraction_failure:
  assumes "os_makedirs w ''outputs'' st = Inr st0"
    and "os_path_exists st0 video"
    and "\<not> truthy (fst (extraer_audio w video st0))"
  shows "\<exists>e. main w cfg video st = (Inr (), snd (extraer_audio w video st0))
           \<and> stdout (snd (main w cfg video st)) =
               stdout st @ [MsgExtracting video, MsgExtractError e]
           \<and> remote (snd (main w cfg video st)) = remote st
           \<and> files (snd (main w cfg video st)) (txt_path_of video) =
               files st (txt_path_of video)"
proof -
  obtain e where e: "extraer_audio w video st0 =
      (None, (put_file (audio_path_of video) (audio_leftover w) st0)
               \<lparr>stdout := stdout st0 @ [MsgExtracting video, MsgExtractError e]\<rparr>)"
    using extraer_audio_falsy[OF assms(3)] by blast
  have st0: "st0 = st\<lparr>dirs := insert ''outputs'' (dirs st)\<rparr>"
    using assms(1) by (rule os_makedirs_Inr)
  have m: "main w cfg video st = (Inr (), snd (extraer_audio w video st0))"
    using main_extraction_fails[OF assms(1,2) e] e by simp
  have "txt_path_of video \<noteq> audio_path_of video"
    using audio_txt_differ[of video] by simp
  then show ?thesis
    using m e st0 by simp
qed

text \<open>
  Claim C7. When the extraction succeeds and the upload reports no result, \<open>main\<close> returns
  after the error line of the upload, before the banner of step 3. The local files are
  those of the start plus the extracted audio, which is still there; remote storage is
  unchanged.
\<close>

theorem main_halts_on_upload_failure:
  assumes "os_makedirs w ''outputs'' st = Inr st0"
    and "os_path_exists st0 video"
    and "extraer_audio w video st0 = (Some audio_file, st1)"
    and "\<not> truthy (fst (subir_a_gcs w audio_file (GCS_BUCKET_NAME cfg) st1))"
  shows "\<exists>e audio. fst (main w cfg video st) = Inr ()
           \<and> stdout (snd (main w cfg video st)) =
               stdout st @ [MsgExtracting video, MsgAudioSaved audio_file,
                            MsgUploading audio_file, MsgUploadError e]
           \<and> extraction w = Inr audio
           \<and> files (snd (main w cfg video st)) = (files st)(audio_file \<mapsto> audio)
           \<and> remote (snd (main w cfg video st)) = remote st"
proof -
  obtain audio where a: "extraction w = Inr audio" "audio_file \<noteq> []"
    and st1: "st1 = st0\<lparr>files := (files st0)(audio_file \<mapsto> audio),
                          stdout := stdout st0 @ [MsgExtracting video, MsgAudioSaved audio_file]\<rparr>"
    using extraer_audio_Some[OF assms(3)] by blast
  obtain e where e: "subir_a_gcs w audio_file (GCS_BUCKET_NAME cfg) st1 =
      (None, st1\<lparr>stdout := stdout st1 @ [MsgUploading audio_file, MsgUploadError e]\<rparr>)"
    using subir_a_gcs_failed[OF assms(4)] by blast
  have st0: "st0 = st\<lparr>dirs := insert ''outputs'' (dirs st)\<rparr>"
    using assms(1) by (rule os_makedirs_Inr)
  have "main w cfg video st =
          (Inr (), st1\<lparr>stdout := stdout st1 @ [MsgUploading audio_file, MsgUploadError e]\<rparr>)"
    using main_upload_fails[OF assms(1,2,3) a(2) e] by simp
  then show ?thesis
    using a(1) st1 st0 by simp
qed

text \<open>
  Claim C8. When the transcription returns the empty string (which it does exactly when
  the request is accepted and the response has no segment) or \<^verbatim>\<open>None\<close>, \<open>main\<close> returns
  right after it, in both cases the same way: the local files are those of the start plus
  the extracted audio, so nothing is written at the path of the transcript and the audio
  is still there.
\<close>

theorem main_returns_on_empty_transcript:
  assumes "os_makedirs w ''outputs'' st = Inr st0"
    and "os_path_exists st0 video"
    and "extraer_audio w video st0 = (Some audio_file, st1)"
    and "subir_a_gcs w audio_file (GCS_BUCKET_NAME cfg) st1 = (Some gcs_uri, st2)"
    and "transcribir_audio_largo w gcs_uri st2 = (Inr texto, st3)"
    and "texto = Some [] \<or> texto = None"
  shows "\<exists>audio. main w cfg video st = (Inr (), st3)
           \<and> extraction w = Inr audio
           \<and> files st3 = (files st)(audio_file \<mapsto> audio)
           \<and> files st3 (txt_path_of video) = files st (txt_path_of video)
           \<and> (texto = Some [] \<longleftrightarrow> submission w = None \<and> recognition w = Inr [])"
proof -
  obtain audio where a: "extraction w = Inr audio" "audio_file \<noteq> []"
    "audio_file = audio_path_of video"
    and st1: "st1 = st0\<lparr>files := (files st0)(audio_file \<mapsto> audio),
                          stdout := stdout st0 @ [MsgExtracting video, MsgAudioSaved audio_file]\<rparr>"
    using extraer_audio_Some[OF assms(3)] by blast
  obtain content where u: "gcs_uri \<noteq> []"
    and st2: "st2 = st1\<lparr>remote := (remote st1)((GCS_BUCKET_NAME cfg, basename audio_file) \<mapsto> content),
                          stdout := stdout st1 @ [MsgUploading audio_file, MsgUploaded gcs_uri]\<rparr>"
    using subir_a_gcs_Some[OF assms(4)] by blast
  have st0: "st0 = st\<lparr>dirs := insert ''outputs'' (dirs st)\<rparr>"
    using assms(1) by (rule os_makedirs_Inr)
  have falsy: "\<not> truthy texto"
    using assms(6) by auto
  have m: "main w cfg video st = (Inr (), st3)"
    using main_transcription_empty[OF assms(1,2,3) a(2) assms(4) u assms(5) falsy] .
  have f: "files st3 = (files st)(audio_file \<mapsto> audio)"
    using transcribir_audio_largo_frame[OF assms(5)] st2 st1 st0 by simp
  have t: "files st3 (txt_path_of video) = files st (txt_path_of video)"
    using f a(3) audio_txt_differ[of video] by simp
  have "texto = Some [] \<longleftrightarrow> submission w = None \<and> recognition w = Inr []"
    using assms(5) transcribir_audio_largo_empty transcribir_audio_largo_no_segments by blast
  then show ?thesis
    using m a(1) f t by blast
qed

text \<open>
  Claim C1, as amended. When extraction, upload and transcription succeed with a non-empty
  text and the writing of the transcript fails, \<open>main\<close> goes on as it does in the same run
  with a successful write. Both runs end the same way, keep or delete the audio file alike
  and leave the same directories and remote objects; their output differs in one line
  only, the error of the write standing where the other run announces the saved file.
  When the deletion of the audio file succeeds, both return normally, the audio file,
  which existed, is gone and the completion line is the last one printed. When the
  deletion raises, its error leaves \<open>main\<close> in both, the audio file stays and no completion
  line is printed.
\<close>

theorem main_ignores_write_failure:
  assumes "os_makedirs w ''outputs'' st = Inr st0"
    and "os_path_exists st0 video"
    and "extraer_audio w video st0 = (Some audio_file, st1)"
    and "subir_a_gcs w audio_file (GCS_BUCKET_NAME cfg) st1 = (Some gcs_uri, st2)"
    and "transcribir_audio_largo w gcs_uri st2 = (Inr (Some texto), st3)"
    and "texto \<noteq> []"
    and "writing w = Some e"
  shows "fst (main w cfg video st) = fst (main (w\<lparr>writing := None\<rparr>) cfg video st)
         \<and> fst (main w cfg video st) = (case removal w of None \<Rightarrow> Inr () | Some x \<Rightarrow> Inl x)
         \<and> stdout (snd (main w cfg video st)) =
             stdout st3 @ [MsgSaving (txt_path_of video), MsgSaveError e] @
             (case removal w of None \<Rightarrow> [MsgCompleted (basename audio_file)] | Some x \<Rightarrow> [])
         \<and> stdout (snd (main (w\<lparr>writing := None\<rparr>) cfg video st)) =
             stdout st3 @ [MsgSaving (txt_path_of video), MsgSaved] @
             (case removal w of None \<Rightarrow> [MsgCompleted (basename audio_file)] | Some x \<Rightarrow> [])
         \<and> files st3 audio_file \<noteq> None
         \<and> files (snd (main w cfg video st)) audio_file =
             (case removal w of None \<Rightarrow> None | Some x \<Rightarrow> files st3 audio_file)
         \<and> files (snd (main (w\<lparr>writing := None\<rparr>) cfg video st)) audio_file =
             files (snd (main w cfg video st)) audio_file
         \<and> remote (snd (main w cfg video st)) =
             remote (snd (main (w\<lparr>writing := None\<rparr>) cfg video st))
         \<and> dirs (snd (main w cfg video st)) =
             dirs (snd (main (w\<lparr>writing := None\<rparr>) cfg video st))"
proof -
  let ?ok = "w\<lparr>writing := None\<rparr>"
  note failed = main_completes[OF assms(1-6)]
  have ok: "main ?ok cfg video st =
     (case removal ?ok of
        Some x \<Rightarrow> (Inl x, guardar_transcripcion ?ok video texto st3)
      | None \<Rightarrow>
          (Inr (),
           (guardar_transcripcion ?ok video texto st3)
             \<lparr>files := (files (guardar_transcripcion ?ok video texto st3))(audio_file := None),
              stdout := stdout (guardar_transcripcion ?ok video texto st3) @
                        [MsgCompleted (basename audio_file)]\<rparr>))"
    and ok_kept: "files (guardar_transcripcion ?ok video texto st3) audio_file =
                  files st3 audio_file"
    using assms(1-6) by (intro main_completes; simp add: writing_irrelevant)+
  have w_ok: "writing ?ok = None"
    by simp
  show ?thesis
  proof (cases "removal w")
    case None
    then show ?thesis
      using failed(2)
      by (simp add: failed(1) ok guardar_transcripcion_failed[OF assms(7)]
            guardar_transcripcion_ok[OF w_ok])
  next
    case (Some x)
    then show ?thesis
      using failed(2) failed(3) ok_kept
      by (simp add: failed(1) ok guardar_transcripcion_failed[OF assms(7)]
            guardar_transcripcion_ok[OF w_ok])
  qed
qed

subsection \<open>The output directory\<close>

lemma step_dirs:
  "extraer_audio w v st = (a, st1) \<Longrightarrow> dirs st1 = dirs st"
  "subir_a_gcs w f b st = (u, st2) \<Longrightarrow> dirs st2 = dirs st"
  by (auto simp: extraer_audio_def subir_a_gcs_def Let_def print_def
           split: sum.splits option.splits)

lemma main_dirs:
  assumes "os_makedirs w ''outputs'' st = Inr st0"
  shows "dirs (snd (main w cfg video st)) = insert ''outputs'' (dirs st)"
proof -
  have st0: "dirs st0 = insert ''outputs'' (dirs st)"
    using os_makedirs_Inr[OF assms] by simp
  show ?thesis
  proof (cases "os_path_exists st0 video")
    case False
    then show ?thesis
      using main_video_missing[OF assms False] st0 by (simp add: print_def)
  next
    case True
    obtain a st1 where e: "extraer_audio w video st0 = (a, st1)"
      by (cases "extraer_audio w video st0")
    have d1: "dirs st1 = dirs st0"
      using step_dirs(1)[OF e] .
    show ?thesis
    proof (cases "truthy a")
      case False
      then show ?thesis
        using main_extraction_fails[OF assms True e False] d1 st0 by simp
    next
      case ta: True
      then obtain a' where a': "a = Some a'" "a' \<noteq> []"
        by (cases a) auto
      obtain u st2 where s: "subir_a_gcs w a' (GCS_BUCKET_NAME cfg) st1 = (u, st2)"
        by (cases "subir_a_gcs w a' (GCS_BUCKET_NAME cfg) st1")
      have d2: "dirs st2 = dirs st1"
        using step_dirs(2)[OF s] .
      show ?thesis
      proof (cases "truthy u")
        case False
        then show ?thesis
          using main_upload_fails[OF assms True e[unfolded a'(1)] a'(2) s False] d1 d2 st0
          by simp
      next
        case tu: True
        then obtain u' where u': "u = Some u'" "u' \<noteq> []"
          by (cases u) auto
        obtain r st3 where t: "transcribir_audio_largo w u' st2 = (r, st3)"
          by (cases "transcribir_audio_largo w u' st2")
        have d3: "dirs st3 = dirs st2"
          using transcribir_audio_largo_frame[OF t] by simp
        note pre = assms True e[unfolded a'(1)] a'(2) s[unfolded u'(1)] u'(2)
        show ?thesis
        proof (cases r)
          case (Inl x)
          then show ?thesis
            using main_transcription_raises[OF pre t[unfolded Inl]] d1 d2 d3 st0 by simp
        next
          case (Inr texto)
          show ?thesis
          proof (cases "truthy texto")
            case False
            then show ?thesis
              using main_transcription_empty[OF pre t[unfolded Inr] False] d1 d2 d3 st0
              by simp
          next
            case tt: True
            then obtain t' where t': "texto = Some t'" "t' \<noteq> []"
              by (cases texto) auto
            show ?thesis
              using main_completes(1)[OF assms True e[unfolded a'(1)] s[unfolded u'(1)]
                      t[unfolded Inr t'(1)] t'(2)] d1 d2 d3 st0
              by (simp add: guardar_transcripcion_frame split: option.splits)
          qed
        qed
      qed
    qed
  qed
qed

text \<open>
  Claim C10, as amended. In every run of \<open>main\<close> in which \<^verbatim>\<open>os.makedirs\<close> does not raise, the
  directory \<^verbatim>\<open>outputs\<close> is on disk from line 139 on and at the end of the run. It is there
  before the video path is tested: the test looks at the state that has the directory, so
  that even the path \<^verbatim>\<open>outputs\<close> passes it and reaches the extraction. A run whose video
  does not exist creates the directory, prints the error and does nothing else.
\<close>

theorem main_creates_outputs_first:
  assumes "os_makedirs w ''outputs'' st = Inr st0"
  shows "st0 = st\<lparr>dirs := insert ''outputs'' (dirs st)\<rparr>
         \<and> ''outputs'' \<in> dirs (snd (main w cfg video st))
         \<and> (\<not> os_path_exists st0 video \<longrightarrow>
              main w cfg video st =
                (Inr (), st\<lparr>dirs := insert ''outputs'' (dirs st),
                             stdout := stdout st @ [MsgVideoNotFound video]\<rparr>))
         \<and> os_path_exists st0 ''outputs''
         \<and> (extraction w = Inl e \<longrightarrow>
              stdout (snd (main w cfg ''outputs'' st)) =
                stdout st @ [MsgExtracting ''outputs'', MsgExtractError e])"
proof -
  have st0: "st0 = st\<lparr>dirs := insert ''outputs'' (dirs st)\<rparr>"
    using assms by (rule os_makedirs_Inr)
  have there: "os_path_exists st0 ''outputs''"
    using st0 by (simp add: os_path_exists_def)
  have "extraction w = Inl e \<longrightarrow>
          stdout (snd (main w cfg ''outputs'' st)) =
            stdout st @ [MsgExtracting ''outputs'', MsgExtractError e]"
  proof
    assume x: "extraction w = Inl e"
    show "stdout (snd (main w cfg ''outputs'' st)) =
            stdout st @ [MsgExtracting ''outputs'', MsgExtractError e]"
      using main_extraction_fails[OF assms there extraer_audio_failed[OF x]] st0 by simp
  qed
  then show ?thesis
    using st0 there main_dirs[OF assms, of cfg video] main_video_missing[OF assms, of video cfg]
    by (simp add: print_def)
qed

subsection \<open>The example run, step by step\<close>

lemma example_paths:
  "audio_path_of ''dir/clip.mp4'' = ''outputs/clip.mp3''"
  "txt_path_of ''dir/clip.mp4'' = ''outputs/clip.txt''"
  "basename ''outputs/clip.mp3'' = ''clip.mp3''"
  by code_simp+

lemma example_free_of_errors [simp]:
  "mkdir example_outcomes = None"
  "removal example_outcomes = None"
  by (simp_all add: example_outcomes_def)

lemma example_makedirs:
  "mkdir w = None \<Longrightarrow>
   os_makedirs w ''outputs'' example_state = Inr (example_state\<lparr>dirs := {''outputs''}\<rparr>)"
  by (simp add: os_makedirs_def example_state_def)

lemma example_exists:
  "os_path_exists (example_state\<lparr>dirs := {''outputs''}\<rparr>) ''dir/clip.mp4''"
  by (simp add: os_path_exists_def example_state_def)

lemma example_extraction:
  assumes "extraction w = Inr audio"
  shows "extraer_audio w ''dir/clip.mp4'' (example_state\<lparr>dirs := {''outputs''}\<rparr>) =
     (Some ''outputs/clip.mp3'',
      \<lparr>dirs = {''outputs''},
       files = [''dir/clip.mp4'' \<mapsto> ''VIDEO'', ''outputs/clip.mp3'' \<mapsto> audio],
       remote = Map.empty,
       stdout = [MsgExtracting ''dir/clip.mp4'', MsgAudioSaved ''outputs/clip.mp3'']\<rparr>)"
  using extraer_audio_ok[OF assms, of "''dir/clip.mp4''" "example_state\<lparr>dirs := {''outputs''}\<rparr>"]
  by (simp add: example_paths example_state_def)

lemma example_upload:
  assumes "upload w = None"
  shows "subir_a_gcs w ''outputs/clip.mp3'' ''b''
      \<lparr>dirs = {''outputs''},
       files = [''dir/clip.mp4'' \<mapsto> ''VIDEO'', ''outputs/clip.mp3'' \<mapsto> audio],
       remote = Map.empty,
       stdout = [MsgExtracting ''dir/clip.mp4'', MsgAudioSaved ''outputs/clip.mp3'']\<rparr> =
     (Some ''gs://b/clip.mp3'',
      \<lparr>dirs = {''outputs''},
       files = [''dir/clip.mp4'' \<mapsto> ''VIDEO'', ''outputs/clip.mp3'' \<mapsto> audio],
       remote = [(''b'', ''clip.mp3'') \<mapsto> audio],
       stdout = [MsgExtracting ''dir/clip.mp4'', MsgAudioSaved ''outputs/clip.mp3'',
                 MsgUploading ''outputs/clip.mp3'', MsgUploaded ''gs://b/clip.mp3'']\<rparr>)"
  by (simp add: subir_a_gcs_def Let_def print_def assms example_paths)

text \<open>
  The theorem for C6 on the example, with an extraction that fails.
\<close>

theorem main_halts_on_extraction_failure_witness:
  "fst (main (example_outcomes\<lparr>extraction := Inl (ExternalError ''no audio track'')\<rparr>)
          example_config ''dir/clip.mp4'' example_state) = Inr ()
   \<and> remote (snd (main (example_outcomes\<lparr>extraction := Inl (ExternalError ''no audio track'')\<rparr>)
                    example_config ''dir/clip.mp4'' example_state)) = remote example_state
   \<and> files (snd (main (example_outcomes\<lparr>extraction := Inl (ExternalError ''no audio track'')\<rparr>)
                   example_config ''dir/clip.mp4'' example_state)) ''outputs/clip.txt'' = None"
proof -
  let ?w = "example_outcomes\<lparr>extraction := Inl (ExternalError ''no audio track'')\<rparr>"
  have falsy: "\<not> truthy (fst (extraer_audio ?w ''dir/clip.mp4''
                                (example_state\<lparr>dirs := {''outputs''}\<rparr>)))"
    by (simp add: extraer_audio_result)
  have "files example_state ''outputs/clip.txt'' = None"
    by (simp add: example_state_def)
  then show ?thesis
    using main_halts_on_extraction_failure [OF example_makedirs[of ?w, simplified] example_exists falsy, of example_config]
    by (auto simp: example_paths)
qed

text \<open>
  The theorem for C7 on the example, with an upload that fails.
\<close>

theorem main_halts_on_upload_failure_witness:
  "fst (main (example_outcomes\<lparr>upload := Some (ExternalError ''network'')\<rparr>)
          example_config ''dir/clip.mp4'' example_state) = Inr ()
   \<and> files (snd (main (example_outcomes\<lparr>upload := Some (ExternalError ''network'')\<rparr>)
                   example_config ''dir/clip.mp4'' example_state)) ''outputs/clip.mp3'' = Some ''AUDIO''
   \<and> remote (snd (main (example_outcomes\<lparr>upload := Some (ExternalError ''network'')\<rparr>)
                    example_config ''dir/clip.mp4'' example_state)) = remote example_state"
proof -
  let ?w = "example_outcomes\<lparr>upload := Some (ExternalError ''network'')\<rparr>"
  have x: "extraction ?w = Inr ''AUDIO''"
    by (simp add: example_outcomes_def)
  have falsy: "\<not> truthy (fst (subir_a_gcs ?w ''outputs/clip.mp3'' (GCS_BUCKET_NAME example_config)
      \<lparr>dirs = {''outputs''},
       files = [''dir/clip.mp4'' \<mapsto> ''VIDEO'', ''outputs/clip.mp3'' \<mapsto> ''AUDIO''],
       remote = Map.empty,
       stdout = [MsgExtracting ''dir/clip.mp4'', MsgAudioSaved ''outputs/clip.mp3'']\<rparr>))"
    by (simp add: subir_a_gcs_def Let_def)
  show ?thesis
    using main_halts_on_upload_failure
            [OF example_makedirs[of ?w, simplified] example_exists example_extraction[OF x] falsy] x
    by auto
qed

text \<open>
  The theorem for C8 on the example, with a response without segments.
\<close>

theorem main_returns_on_empty_transcript_witness:
  "fst (main (example_outcomes\<lparr>recognition := Inr []\<rparr>)
          example_config ''dir/clip.mp4'' example_state) = Inr ()
   \<and> files (snd (main (example_outcomes\<lparr>recognition := Inr []\<rparr>)
                   example_config ''dir/clip.mp4'' example_state)) ''outputs/clip.mp3'' = Some ''AUDIO''
   \<and> files (snd (main (example_outcomes\<lparr>recognition := Inr []\<rparr>)
                   example_config ''dir/clip.mp4'' example_state)) ''outputs/clip.txt'' = None"
proof -
  let ?w = "example_outcomes\<lparr>recognition := Inr []\<rparr>"
  have x: "extraction ?w = Inr ''AUDIO''" and u: "upload ?w = None"
    by (simp_all add: example_outcomes_def)
  have up: "subir_a_gcs ?w ''outputs/clip.mp3'' (GCS_BUCKET_NAME example_config)
      \<lparr>dirs = {''outputs''},
       files = [''dir/clip.mp4'' \<mapsto> ''VIDEO'', ''outputs/clip.mp3'' \<mapsto> ''AUDIO''],
       remote = Map.empty,
       stdout = [MsgExtracting ''dir/clip.mp4'', MsgAudioSaved ''outputs/clip.mp3'']\<rparr> =
     (Some ''gs://b/clip.mp3'',
      \<lparr>dirs = {''outputs''},
       files = [''dir/clip.mp4'' \<mapsto> ''VIDEO'', ''outputs/clip.mp3'' \<mapsto> ''AUDIO''],
       remote = [(''b'', ''clip.mp3'') \<mapsto> ''AUDIO''],
       stdout = [MsgExtracting ''dir/clip.mp4'', MsgAudioSaved ''outputs/clip.mp3'',
                 MsgUploading ''outputs/clip.mp3'', MsgUploaded ''gs://b/clip.mp3'']\<rparr>)"
    using example_upload[OF u, of "''AUDIO''"] by (simp add: example_config_def)
  have tr: "transcribir_audio_largo ?w ''gs://b/clip.mp3''
      \<lparr>dirs = {''outputs''},
       files = [''dir/clip.mp4'' \<mapsto> ''VIDEO'', ''outputs/clip.mp3'' \<mapsto> ''AUDIO''],
       remote = [(''b'', ''clip.mp3'') \<mapsto> ''AUDIO''],
       stdout = [MsgExtracting ''dir/clip.mp4'', MsgAudioSaved ''outputs/clip.mp3'',
                 MsgUploading ''outputs/clip.mp3'', MsgUploaded ''gs://b/clip.mp3'']\<rparr> =
     (Inr (Some []),
      \<lparr>dirs = {''outputs''},
       files = [''dir/clip.mp4'' \<mapsto> ''VIDEO'', ''outputs/clip.mp3'' \<mapsto> ''AUDIO''],
       remote = [(''b'', ''clip.mp3'') \<mapsto> ''AUDIO''],
       stdout = [MsgExtracting ''dir/clip.mp4'', MsgAudioSaved ''outputs/clip.mp3'',
                 MsgUploading ''outputs/clip.mp3'', MsgUploaded ''gs://b/clip.mp3'',
                 MsgTranscribing ''gs://b/clip.mp3'', MsgWaiting, MsgTranscribed 3]\<rparr>)"
    by (simp add: transcribir_audio_largo_def Let_def print_def example_outcomes_def)
  have e: "Some ([]::string) = Some [] \<or> Some ([]::string) = None"
    by simp
  show ?thesis
    using main_returns_on_empty_transcript
            [OF example_makedirs[of ?w, simplified] example_exists example_extraction[OF x] up tr e]
    by simp
qed

lemma example_transcription:
  "transcribir_audio_largo (example_outcomes\<lparr>writing := x\<rparr>) ''gs://b/clip.mp3''
      \<lparr>dirs = {''outputs''},
       files = [''dir/clip.mp4'' \<mapsto> ''VIDEO'', ''outputs/clip.mp3'' \<mapsto> ''AUDIO''],
       remote = [(''b'', ''clip.mp3'') \<mapsto> ''AUDIO''],
       stdout = [MsgExtracting ''dir/clip.mp4'', MsgAudioSaved ''outputs/clip.mp3'',
                 MsgUploading ''outputs/clip.mp3'', MsgUploaded ''gs://b/clip.mp3'']\<rparr> =
     (Inr (Some (''hello world'' @ [CHR 0x0A])),
      \<lparr>dirs = {''outputs''},
       files = [''dir/clip.mp4'' \<mapsto> ''VIDEO'', ''outputs/clip.mp3'' \<mapsto> ''AUDIO''],
       remote = [(''b'', ''clip.mp3'') \<mapsto> ''AUDIO''],
       stdout = [MsgExtracting ''dir/clip.mp4'', MsgAudioSaved ''outputs/clip.mp3'',
                 MsgUploading ''outputs/clip.mp3'', MsgUploaded ''gs://b/clip.mp3'',
                 MsgTranscribing ''gs://b/clip.mp3'', MsgWaiting, MsgTranscribed 3]\<rparr>)"
  by (simp add: transcribir_audio_largo_def Let_def print_def example_outcomes_def)

text \<open>
  The theorem for C1 on the example, with a write that fails.
\<close>

theorem main_ignores_write_failure_witness:
  "fst (main (example_outcomes\<lparr>writing := Some (ExternalError ''disk full'')\<rparr>)
          example_config ''dir/clip.mp4'' example_state) = Inr ()
   \<and> files (snd (main (example_outcomes\<lparr>writing := Some (ExternalError ''disk full'')\<rparr>)
                   example_config ''dir/clip.mp4'' example_state)) ''outputs/clip.mp3'' = None
   \<and> last (stdout (snd (main (example_outcomes\<lparr>writing := Some (ExternalError ''disk full'')\<rparr>)
                          example_config ''dir/clip.mp4'' example_state))) =
       MsgCompleted ''clip.mp3''"
proof -
  let ?w = "example_outcomes\<lparr>writing := Some (ExternalError ''disk full'')\<rparr>"
  have x: "extraction ?w = Inr ''AUDIO''" and u: "upload ?w = None"
    and wr: "writing ?w = Some (ExternalError ''disk full'')"
    by (simp_all add: example_outcomes_def)
  have up: "subir_a_gcs ?w ''outputs/clip.mp3'' (GCS_BUCKET_NAME example_config)
      \<lparr>dirs = {''outputs''},
       files = [''dir/clip.mp4'' \<mapsto> ''VIDEO'', ''outputs/clip.mp3'' \<mapsto> ''AUDIO''],
       remote = Map.empty,
       stdout = [MsgExtracting ''dir/clip.mp4'', MsgAudioSaved ''outputs/clip.mp3'']\<rparr> =
     (Some ''gs://b/clip.mp3'',
      \<lparr>dirs = {''outputs''},
       files = [''dir/clip.mp4'' \<mapsto> ''VIDEO'', ''outputs/clip.mp3'' \<mapsto> ''AUDIO''],
       remote = [(''b'', ''clip.mp3'') \<mapsto> ''AUDIO''],
       stdout = [MsgExtracting ''dir/clip.mp4'', MsgAudioSaved ''outputs/clip.mp3'',
                 MsgUploading ''outputs/clip.mp3'', MsgUploaded ''gs://b/clip.mp3'']\<rparr>)"
    using example_upload[OF u, of "''AUDIO''"] by (simp add: example_config_def)
  have ne: "''hello world'' @ [CHR 0x0A] \<noteq> []"
    by simp
  show ?thesis
    using main_ignores_write_failure
            [OF example_makedirs[of ?w, simplified] example_exists example_extraction[OF x] up
                example_transcription ne wr]
    by (auto simp: example_paths)
qed

text \<open>
  The claim as first stated has the audio deleted and the run reported as completed
  whenever the write of the transcript fails. On a disk where \<^verbatim>\<open>outputs\<close> is not writable
  and holds the audio of an earlier run, the extraction overwrites that file, the write
  of the transcript raises and is caught, and \<^verbatim>\<open>os.remove\<close> on line 164 raises as well: its
  error leaves \<open>main\<close>, the audio stays and no completion line is printed.
\<close>

theorem main_ignores_write_failure_counterexample:
  "fst (main readonly_outcomes example_config ''dir/clip.mp4'' readonly_state) =
     Inl PermissionError
   \<and> files (snd (main readonly_outcomes example_config ''dir/clip.mp4'' readonly_state))
       ''outputs/clip.mp3'' = Some ''AUDIO''
   \<and> last (stdout (snd (main readonly_outcomes example_config ''dir/clip.mp4'' readonly_state))) =
       MsgSaveError PermissionError"
  by (simp add: main_def os_makedirs_def os_path_exists_def extraer_audio_def subir_a_gcs_def
        transcribir_audio_largo_def guardar_transcripcion_def os_remove_def print_def
        put_file_def Let_def readonly_state_def readonly_outcomes_def example_outcomes_def
        example_config_def example_paths)

text \<open>
  The theorem for C10 on the example, with a video path that does not exist.
\<close>

theorem main_creates_outputs_first_witness:
  "os_makedirs example_outcomes ''outputs'' example_state =
     Inr (example_state\<lparr>dirs := {''outputs''}\<rparr>)
   \<and> ''outputs'' \<in> dirs (snd (main example_outcomes example_config ''missing.mp4'' example_state))
   \<and> main example_outcomes example_config ''missing.mp4'' example_state =
       (Inr (), example_state\<lparr>dirs := {''outputs''}, stdout := [MsgVideoNotFound ''missing.mp4'']\<rparr>)"
proof -
  have created: "os_makedirs example_outcomes ''outputs'' example_state =
      Inr (example_state\<lparr>dirs := {''outputs''}\<rparr>)"
    by (rule example_makedirs) simp
  have missing: "\<not> os_path_exists (example_state\<lparr>dirs := {''outputs''}\<rparr>) ''missing.mp4''"
    by (simp add: os_path_exists_def example_state_def)
  show ?thesis
    using created missing
      main_creates_outputs_first [OF created, of example_config "''missing.mp4''"]
    by (simp add: example_state_def)
qed

text \<open>
  The claim as first stated covers every run. When \<^verbatim>\<open>outputs\<close> exists and is a regular
  file, \<^verbatim>\<open>os.makedirs\<close> raises FileExistsError on line 139: nothing catches it, no directory
  is created and the video path is never tested.
\<close>

theorem main_creates_outputs_first_counterexample:
  "main example_outcomes example_config ''missing.mp4'' blocked_state =
     (Inl FileExistsError, blocked_state)
   \<and> ''outputs'' \<notin> dirs blocked_state"
  by (simp add: main_def os_makedirs_def blocked_state_def)

subsection \<open>Exit status\<close>











text \<open>
  Claim C9. When, after loading, one of the three settings is the empty string or is
  absent, the script prints the two lines of the configuration error and exits with
  status 1; nothing else in the state changes, so no step ran.
\<close>

theorem script_rejects_empty_setting:
  assumes "load_dotenv ''.env'' st env = Inr env'"
    and "k \<in> {''GCP_PROJECT_ID'', ''GCS_BUCKET_NAME'', ''AUDIO_LANGUAGE_CODE''}"
    and "env' k = Some [] \<or> env' k = None"
  shows "script w env argv st =
           (SysExit 1, st\<lparr>stdout := stdout st @ [MsgConfigMissing, MsgConfigHint]\<rparr>)
         \<and> exit_code (fst (script w env argv st)) = 1"
proof -
  have "\<not> truthy (env' k)"
    using assms(3) by auto
  then have "\<not> list_all truthy
      [env' ''GCP_PROJECT_ID'', env' ''GCS_BUCKET_NAME'', env' ''AUDIO_LANGUAGE_CODE'']"
    using assms(2) by auto
  then show ?thesis
    using assms(1) by (simp add: script_def Let_def print_def)
qed



lemma example_load_dotenv:
  "load_dotenv ''.env'' example_state env = Inr env"
  "load_dotenv ''.env'' blocked_state env = Inr env"
  by (simp_all add: load_dotenv_def os_path_exists_def example_state_def blocked_state_def)



text \<open>
  The theorem for C9 with an empty and with an absent bucket name.
\<close>

theorem script_rejects_empty_setting_witness:
  "script example_outcomes (example_environ(''GCS_BUCKET_NAME'' \<mapsto> []))
     [''transcripcion.py'', ''dir/clip.mp4''] example_state =
   (SysExit 1, example_state\<lparr>stdout := [MsgConfigMissing, MsgConfigHint]\<rparr>)
   \<and> script example_outcomes (example_environ(''GCS_BUCKET_NAME'' := None))
     [''transcripcion.py'', ''dir/clip.mp4''] example_state =
   (SysExit 1, example_state\<lparr>stdout := [MsgConfigMissing, MsgConfigHint]\<rparr>)"
proof -
  have k: "''GCS_BUCKET_NAME'' \<in> {''GCP_PROJECT_ID'', ''GCS_BUCKET_NAME'', ''AUDIO_LANGUAGE_CODE''}"
    by simp
  have empty: "(example_environ(''GCS_BUCKET_NAME'' \<mapsto> [])) ''GCS_BUCKET_NAME'' = Some []
      \<or> (example_environ(''GCS_BUCKET_NAME'' \<mapsto> [])) ''GCS_BUCKET_NAME'' = None"
    by simp
  have absent: "(example_environ(''GCS_BUCKET_NAME'' := None)) ''GCS_BUCKET_NAME'' = Some []
      \<or> (example_environ(''GCS_BUCKET_NAME'' := None)) ''GCS_BUCKET_NAME'' = None"
    by simp
  show ?thesis
    using script_rejects_empty_setting
            [OF example_load_dotenv(1)[of "example_environ(''GCS_BUCKET_NAME'' \<mapsto> [])"] k empty]
      script_rejects_empty_setting
            [OF example_load_dotenv(1)[of "example_environ(''GCS_BUCKET_NAME'' := None)"] k absent]
    by (simp add: example_state_def)
qed



end
